theory Spec2Isabelle
  imports Main "HOL-Library.Sublist"
begin

section \<open>Strings of the server code\<close>

text \<open>
  A JavaScript string is a sequence of UTF-16 code units. The model covers the code units
  U+0000 to U+00FF, one \<open>char\<close> each, so \<open>length\<close> is the \<open>.length\<close> of the source
  string. On that range \<open>String.prototype.toLowerCase\<close> maps code unit by code unit:
  A to Z and the Latin-1 capitals U+00C0 to U+00DE (U+00D7, the multiplication sign,
  apart) move up by 32, every other code unit stays.
\<close>

definition lower_char :: "char \<Rightarrow> char" where
  "lower_char c =
     (let n = (of_char c :: nat)
      in if (65 \<le> n \<and> n \<le> 90) \<or> (192 \<le> n \<and> n \<le> 214) \<or> (216 \<le> n \<and> n \<le> 222)
         then char_of (n + 32) else c)"

definition toLowerCase :: "string \<Rightarrow> string" where
  "toLowerCase s = map lower_char s"

text \<open>\<open>s.includes(k)\<close>: \<open>k\<close> occurs in \<open>s\<close> as a contiguous run of code units.\<close>

definition includes_str :: "string \<Rightarrow> string \<Rightarrow> bool" where
  "includes_str s k = sublist k s"

text \<open>
  \<open>String.prototype.trim\<close> removes white space and line terminators at both ends; on
  the modelled range these are tab, line feed, vertical tab, form feed, carriage return,
  space and the no-break space U+00A0.
\<close>

definition is_white_space :: "char \<Rightarrow> bool" where
  "is_white_space c = ((of_char c :: nat) \<in> {9, 10, 11, 12, 13, 32, 160})"

definition trim :: "string \<Rightarrow> string" where
  "trim s = rev (dropWhile is_white_space (rev (dropWhile is_white_space s)))"

text \<open>
  \<open>s.split(sep)\<close> for a one-character separator: the pieces between the occurrences of
  the separator, empty pieces kept; the empty string gives the one piece \<open>""\<close>.
\<close>

fun split :: "char \<Rightarrow> string \<Rightarrow> string list" where
  "split sep [] = [[]]"
| "split sep (c # cs) =
     (if c = sep then [] # split sep cs
      else (case split sep cs of
              [] \<Rightarrow> [[c]]
            | w # ws \<Rightarrow> (c # w) # ws))"

text \<open>The character class \<open>[a-z]\<close> of the regular expression \<open>/[^a-z]/g\<close>.\<close>

definition is_a_to_z :: "char \<Rightarrow> bool" where
  "is_a_to_z c = (97 \<le> (of_char c :: nat) \<and> (of_char c :: nat) \<le> 122)"

text \<open>\<open>s.replace(/[^a-z]/g, '')\<close>: every character outside a to z is deleted.\<close>

definition strip_non_a_to_z :: "string \<Rightarrow> string" where
  "strip_non_a_to_z s = filter is_a_to_z s"

section \<open>Property reads on the mood tables\<close>

text \<open>
  \<open>moodColorMap\<close> and \<open>moodPlaylistMap\<close> are object literals, so a read
  \<open>table[key]\<close> that finds no own property continues on \<open>Object.prototype\<close>. A value
  read from a table is therefore either a value of the table (\<open>Own\<close>) or the member of
  \<open>Object.prototype\<close> of that name (\<open>Inherited\<close>: a function, or for \<open>__proto__\<close>
  the prototype object itself); \<open>None\<close> is \<open>undefined\<close>.
\<close>

datatype 'a js_value = Own 'a | Inherited string

definition object_prototype_members :: "string list" where
  "object_prototype_members =
     [''constructor'', ''__defineGetter__'', ''__defineSetter__'', ''hasOwnProperty'',
      ''__lookupGetter__'', ''__lookupSetter__'', ''isPrototypeOf'',
      ''propertyIsEnumerable'', ''toString'', ''valueOf'', ''__proto__'',
      ''toLocaleString'']"

definition get_property :: "(string \<times> 'a) list \<Rightarrow> string \<Rightarrow> 'a js_value option" where
  "get_property table key =
     (case map_of table key of
        Some v \<Rightarrow> Some (Own v)
      | None \<Rightarrow> if key \<in> set object_prototype_members then Some (Inherited key) else None)"

text \<open>
  Truthiness as the \<open>if (table[key])\<close> tests and the \<open>||\<close> operators of the source see
  it: \<open>undefined\<close> is falsy, an array, a function and an object are truthy, a string is
  truthy unless it is empty.
\<close>

fun truthy_array :: "string list js_value option \<Rightarrow> bool" where
  "truthy_array None = False"
| "truthy_array (Some v) = True"

fun truthy_string :: "string js_value option \<Rightarrow> bool" where
  "truthy_string None = False"
| "truthy_string (Some (Own s)) = (s \<noteq> [])"
| "truthy_string (Some (Inherited m)) = True"

section \<open>Color Mapper and Playlist Mapper\<close>

definition moodColorMap :: "(string \<times> string list) list" where
  "moodColorMap =
     [(''happy'', [''#FFA726'', ''#66BB6A'', ''#42A5F5'', ''#FFEB3B'']),
      (''peaceful'', [''#81C784'', ''#64B5F6'', ''#A5D6A7'', ''#E1F5FE'']),
      (''excited'', [''#FF7043'', ''#FFA726'', ''#FFCA28'', ''#EC407A'']),
      (''sad'', [''#90A4AE'', ''#78909C'', ''#B0BEC5'', ''#CFD8DC'']),
      (''angry'', [''#E53935'', ''#FF5722'', ''#F44336'', ''#D32F2F'']),
      (''anxious'', [''#9E9E9E'', ''#78909C'', ''#546E7A'', ''#607D8B'']),
      (''motivated'', [''#4CAF50'', ''#2196F3'', ''#FF9800'', ''#9C27B0'']),
      (''creative'', [''#9C27B0'', ''#E91E63'', ''#FF5722'', ''#607D8B'']),
      (''nostalgic'', [''#8D6E63'', ''#A1887F'', ''#BCAAA4'', ''#D7CCC8'']),
      (''dreamy'', [''#CE93D8'', ''#F8BBD9'', ''#C5CAE9'', ''#DCEDC8''])]"

definition moodPlaylistMap :: "(string \<times> string) list" where
  "moodPlaylistMap =
     [(''happy'', ''37i9dQZF1DX0XUsuxWHRQd''),
      (''peaceful'', ''37i9dQZF1DWZqd5JICZI0u''),
      (''excited'', ''37i9dQZF1DX32NsLKyzScr''),
      (''sad'', ''37i9dQZF1DX3YSRoSdA634''),
      (''motivated'', ''37i9dQZF1DXdxcBWuJkbcy''),
      (''creative'', ''37i9dQZF1DX0SM0LYsmbMT''),
      (''nostalgic'', ''37i9dQZF1DX1s9knjP51Oa''),
      (''dreamy'', ''37i9dQZF1DX3Sp0P28SIer'')]"

definition default_colors :: "string list" where
  "default_colors = [''#42A5F5'', ''#66BB6A'', ''#FFA726'', ''#AB47BC'']"

definition default_playlist :: string where
  "default_playlist = ''37i9dQZF1DX0XUsuxWHRQd''"

text \<open>
  The test of the partial-match loop,
  \<open>lowerMood.includes(key) || key.includes(lowerMood)\<close>.
\<close>

definition partial_match :: "string \<Rightarrow> string \<Rightarrow> bool" where
  "partial_match lowerMood key = (includes_str lowerMood key \<or> includes_str key lowerMood)"

text \<open>
  \<open>getColorsForMood\<close>: the exact read first, returned when truthy (every value this
  table can give is: an array, or a member of \<open>Object.prototype\<close>); then the first
  entry of \<open>Object.entries(moodColorMap)\<close>, which lists the own properties in the order
  of the literal, that matches partially; then the default colors.
\<close>

definition getColorsForMood :: "string \<Rightarrow> string list js_value" where
  "getColorsForMood mood =
     (let lowerMood = toLowerCase mood;
          exact = get_property moodColorMap lowerMood
      in case (if truthy_array exact then exact else None) of
           Some v \<Rightarrow> v
         | None \<Rightarrow>
             (case find (\<lambda>(key, colors). partial_match lowerMood key) moodColorMap of
                Some (key, colors) \<Rightarrow> Own colors
              | None \<Rightarrow> Own default_colors))"

definition getPlaylistForMood :: "string \<Rightarrow> string js_value" where
  "getPlaylistForMood mood =
     (let lowerMood = toLowerCase mood;
          exact = get_property moodPlaylistMap lowerMood
      in case (if truthy_string exact then exact else None) of
           Some v \<Rightarrow> v
         | None \<Rightarrow>
             (case find (\<lambda>(key, playlistId). partial_match lowerMood key) moodPlaylistMap of
                Some (key, playlistId) \<Rightarrow> Own playlistId
              | None \<Rightarrow> Own default_playlist))"

text \<open>
  The two mappers as the specification words them, for comparison with the code: exact
  key of the table, else first entry whose key is a substring of the lower-cased input or
  contains it, else the default.
\<close>

definition spec_ColorMapper :: "string \<Rightarrow> string list" where
  "spec_ColorMapper mood =
     (let m = toLowerCase mood
      in case map_of moodColorMap m of
           Some palette \<Rightarrow> palette
         | None \<Rightarrow>
             (case find (\<lambda>(key, palette). sublist key m \<or> sublist m key) moodColorMap of
                Some (key, palette) \<Rightarrow> palette
              | None \<Rightarrow> [''#42A5F5'', ''#66BB6A'', ''#FFA726'', ''#AB47BC'']))"

definition spec_PlaylistMapper :: "string \<Rightarrow> string" where
  "spec_PlaylistMapper mood =
     (let m = toLowerCase mood
      in case map_of moodPlaylistMap m of
           Some playlist \<Rightarrow> playlist
         | None \<Rightarrow>
             (case find (\<lambda>(key, playlist). sublist key m \<or> sublist m key) moodPlaylistMap of
                Some (key, playlist) \<Rightarrow> playlist
              | None \<Rightarrow> ''37i9dQZF1DX0XUsuxWHRQd''))"

text \<open>A mood matches no key of a table, neither exactly nor by substring.\<close>

definition matches_no_key :: "(string \<times> 'a) list \<Rightarrow> string \<Rightarrow> bool" where
  "matches_no_key table mood =
     (find (\<lambda>(key, v). key = toLowerCase mood \<or> partial_match (toLowerCase mood) key) table
        = None)"

section \<open>External services\<close>

text \<open>
  What the outside world answers is an input of the model. \<open>unsplash_key\<close> and
  \<open>openai_key\<close> are the two credentials as the module reads them at start-up, the empty
  string when no environment variable is set. \<open>fetch_photos\<close> is the outcome of the
  image search for a mood, \<open>quote_completion\<close> the outcome of the chat completion for a
  mood, \<open>vision_completion\<close> the outcome of the chat completion for an image.
\<close>

datatype search_body = BodyMalformed | BodyResults "string list"

datatype fetch_outcome = FetchRejected | FetchResponse nat search_body

datatype chat_outcome = ChatRejected | ChatMalformed | ChatContent "string option"

record env =
  unsplash_key :: string
  openai_key :: string
  fetch_photos :: "string \<Rightarrow> fetch_outcome"
  quote_completion :: "string \<Rightarrow> chat_outcome"
  vision_completion :: "string \<Rightarrow> chat_outcome"

text \<open>
  The values thrown to a caller: an \<open>Error\<close> with its message, or the \<open>ZodError\<close> of
  a failed \<open>parse\<close>.
\<close>

datatype zod_issue = invalid_type | too_small | too_big

datatype error = Error string | ZodError zod_issue

definition fallback_images :: "string list" where
  "fallback_images =
     [''https://images.unsplash.com/photo-1506905925346-21bda4d32df4?ixlib=rb-4.0.3&auto=format&fit=crop&w=800&h=600'',
      ''https://images.unsplash.com/photo-1441974231531-c6227db76b6e?ixlib=rb-4.0.3&auto=format&fit=crop&w=800&h=600'',
      ''https://images.unsplash.com/photo-1481627834876-b7833e8f5570?ixlib=rb-4.0.3&auto=format&fit=crop&w=800&h=600'',
      ''https://images.unsplash.com/photo-1495474472287-4d71bcdd2085?ixlib=rb-4.0.3&auto=format&fit=crop&w=800&h=600'']"

text \<open>\<open>response.ok\<close>: the status is in the range 200 to 299.\<close>

definition response_ok :: "nat \<Rightarrow> bool" where
  "response_ok status = (200 \<le> status \<and> status \<le> 299)"

text \<open>
  \<open>fetchUnsplashImages\<close>: the credential check stands before the \<open>try\<close>, so its
  \<open>throw\<close> reaches the caller; everything thrown inside the \<open>try\<close> (a rejected
  fetch, a status that is not ok, a body that cannot be read) ends in the \<open>catch\<close>.
\<close>

definition fetchUnsplashImages :: "env \<Rightarrow> string \<Rightarrow> error + string list" where
  "fetchUnsplashImages e mood =
     (if unsplash_key e = [] then Inl (Error ''Unsplash API key not configured'')
      else (case fetch_photos e mood of
              FetchRejected \<Rightarrow> Inr fallback_images
            | FetchResponse status body \<Rightarrow>
                if \<not> response_ok status then Inr fallback_images
                else (case body of
                        BodyMalformed \<Rightarrow> Inr fallback_images
                      | BodyResults urls \<Rightarrow> Inr urls)))"

text \<open>
  The fallback quote is the template literal of the source, whose first and last
  characters are double quotes.
\<close>

definition fallback_quote :: "string \<Rightarrow> string" where
  "fallback_quote mood =
     [CHR 0x22] @ ''Every '' @ mood
       @ '' moment is a step toward growth and self-discovery.'' @ [CHR 0x22]"

definition generateAIQuote :: "env \<Rightarrow> string \<Rightarrow> error + string" where
  "generateAIQuote e mood =
     (if openai_key e = [] then Inl (Error ''OpenAI API key not configured'')
      else (case quote_completion e mood of
              ChatRejected \<Rightarrow> Inr (fallback_quote mood)
            | ChatMalformed \<Rightarrow> Inr (fallback_quote mood)
            | ChatContent None \<Rightarrow> Inr (fallback_quote mood)
            | ChatContent (Some content) \<Rightarrow>
                Inr (if trim content \<noteq> [] then trim content else fallback_quote mood)))"

text \<open>
  \<open>analyzeMoodFromImage\<close>: \<open>detectedMood\<close> is the trimmed, lower-cased content, or
  \<open>"peaceful"\<close> when the content is null or that string is empty; the result is the
  piece before the first space, with every character outside a to z deleted. An empty
  list of pieces would make \<open>[0]\<close> undefined and \<open>.replace\<close> throw into the
  \<open>catch\<close>.
\<close>

definition analyzeMoodFromImage :: "env \<Rightarrow> string \<Rightarrow> error + string" where
  "analyzeMoodFromImage e base64Image =
     (if openai_key e = [] then Inl (Error ''OpenAI API key not configured'')
      else (case vision_completion e base64Image of
              ChatRejected \<Rightarrow> Inr ''peaceful''
            | ChatMalformed \<Rightarrow> Inr ''peaceful''
            | ChatContent content \<Rightarrow>
                (let lowered = map_option (\<lambda>c. toLowerCase (trim c)) content;
                     detectedMood = (case lowered of
                                       None \<Rightarrow> ''peaceful''
                                     | Some s \<Rightarrow> if s \<noteq> [] then s else ''peaceful'')
                 in case split (CHR '' '') detectedMood of
                      [] \<Rightarrow> Inr ''peaceful''
                    | w # ws \<Rightarrow> Inr (strip_non_a_to_z w))))"

text \<open>
  The classifier as the specification words it: the first white-space-delimited token of
  the response, lower-cased, with the characters that are not letters removed.
\<close>

definition spec_first_token :: "string \<Rightarrow> string" where
  "spec_first_token response =
     takeWhile (\<lambda>c. \<not> is_white_space c) (dropWhile is_white_space response)"

definition spec_Classifier :: "string \<Rightarrow> string" where
  "spec_Classifier response = filter is_a_to_z (toLowerCase (spec_first_token response))"

section \<open>Moodboard Store\<close>

text \<open>
  \<open>InsertMoodboard\<close> is what the generate handler hands to the store, \<open>Moodboard\<close>
  the stored record: the same fields and the two the store assigns. \<open>colors\<close> and
  \<open>spotifyPlaylistId\<close> hold whatever the mappers returned; \<open>None\<close> in
  \<open>spotifyPlaylistId\<close> is \<open>null\<close> or \<open>undefined\<close>. \<open>createdAt\<close> is the clock
  reading of \<open>new Date()\<close>, an input of the model.
\<close>

record InsertMoodboard =
  mood :: string
  quote :: string
  images :: "string list"
  colors :: "string list js_value"
  spotifyPlaylistId :: "string js_value option"
  shareId :: string

record Moodboard = InsertMoodboard +
  id_mb :: nat
  createdAt :: nat

text \<open>
  \<open>MemStorage\<close>: the two \<open>Map\<close>s and the counter. The ids are the integers from 1
  on, which a JavaScript number holds exactly far beyond the number of entries a
  \<open>Map\<close> can take, so they are natural numbers here.
\<close>

record MemStorage =
  moodboards :: "nat \<rightharpoonup> Moodboard"
  shareIdMap :: "string \<rightharpoonup> nat"
  currentId :: nat

definition new_MemStorage :: MemStorage where
  "new_MemStorage = \<lparr>moodboards = Map.empty, shareIdMap = Map.empty, currentId = 1\<rparr>"

text \<open>\<open>x || null\<close> and \<open>x || undefined\<close> on a playlist value.\<close>

definition or_null :: "string js_value option \<Rightarrow> string js_value option" where
  "or_null x = (if truthy_string x then x else None)"

definition createMoodboard ::
  "MemStorage \<Rightarrow> nat \<Rightarrow> InsertMoodboard \<Rightarrow> Moodboard \<times> MemStorage" where
  "createMoodboard st now insertMoodboard =
     (let ident = currentId st;
          moodboard = \<lparr>mood = mood insertMoodboard,
                       quote = quote insertMoodboard,
                       images = images insertMoodboard,
                       colors = colors insertMoodboard,
                       spotifyPlaylistId = or_null (spotifyPlaylistId insertMoodboard),
                       shareId = shareId insertMoodboard,
                       id_mb = ident,
                       createdAt = now\<rparr>
      in (moodboard,
          \<lparr>moodboards = (moodboards st)(ident \<mapsto> moodboard),
           shareIdMap = (shareIdMap st)(shareId moodboard \<mapsto> ident),
           currentId = ident + 1\<rparr>))"

definition getMoodboard :: "MemStorage \<Rightarrow> nat \<Rightarrow> Moodboard option" where
  "getMoodboard st ident = moodboards st ident"

text \<open>\<open>if (!id) return undefined\<close>: an id that is undefined or 0 gives undefined.\<close>

definition getMoodboardByShareId :: "MemStorage \<Rightarrow> string \<Rightarrow> Moodboard option" where
  "getMoodboardByShareId st sid =
     (case shareIdMap st sid of
        None \<Rightarrow> None
      | Some ident \<Rightarrow> if ident = 0 then None else moodboards st ident)"

text \<open>
  A sequence of \<open>createMoodboard\<close> calls, each with its clock reading: the records
  returned, in creation order, and the store after the last call.
\<close>

fun create_all ::
  "MemStorage \<Rightarrow> (nat \<times> InsertMoodboard) list \<Rightarrow> Moodboard list \<times> MemStorage" where
  "create_all st [] = ([], st)"
| "create_all st ((now, ins) # rest) =
     (let (m, st') = createMoodboard st now ins;
          (ms, st'') = create_all st' rest
      in (m # ms, st''))"

section \<open>Request handlers\<close>

text \<open>
  A request body is a JSON value. Of a number only the fact that it is one is looked at.
\<close>

datatype json =
    JNull
  | JBool bool
  | JNumber int
  | JString string
  | JArray "json list"
  | JObject "(string \<times> json) list"

text \<open>
  \<open>generateMoodboardSchema.parse\<close>, that is
  \<open>z.object({ mood: z.string().min(1).max(100) })\<close>.
\<close>

definition parse_generateMoodboardSchema :: "json \<Rightarrow> error + string" where
  "parse_generateMoodboardSchema body =
     (case body of
        JObject flds \<Rightarrow>
          (case map_of flds ''mood'' of
             Some (JString s) \<Rightarrow>
               if length s < 1 then Inl (ZodError too_small)
               else if length s > 100 then Inl (ZodError too_big)
               else Inr s
           | _ \<Rightarrow> Inl (ZodError invalid_type))
      | _ \<Rightarrow> Inl (ZodError invalid_type))"

text \<open>
  \<open>analyzeMoodFromImageSchema.parse\<close>: \<open>image\<close> is any string; \<open>cvAnalysis\<close> may
  be missing, and is otherwise an object of three numbers and a boolean. The handler
  reads \<open>image\<close> only.
\<close>

fun is_number :: "json option \<Rightarrow> bool" where
  "is_number (Some (JNumber n)) = True"
| "is_number _ = False"

fun is_boolean :: "json option \<Rightarrow> bool" where
  "is_boolean (Some (JBool b)) = True"
| "is_boolean _ = False"

fun valid_cvAnalysis :: "json option \<Rightarrow> bool" where
  "valid_cvAnalysis None = True"
| "valid_cvAnalysis (Some (JObject flds)) =
     (is_number (map_of flds ''avgBrightness'') \<and> is_number (map_of flds ''contrast'')
      \<and> is_number (map_of flds ''edgeIntensity'')
      \<and> is_boolean (map_of flds ''faceDetected''))"
| "valid_cvAnalysis (Some other) = False"

definition parse_analyzeMoodFromImageSchema :: "json \<Rightarrow> error + string" where
  "parse_analyzeMoodFromImageSchema body =
     (case body of
        JObject flds \<Rightarrow>
          (case map_of flds ''image'' of
             Some (JString s) \<Rightarrow>
               if valid_cvAnalysis (map_of flds ''cvAnalysis'') then Inr s
               else Inl (ZodError invalid_type)
           | _ \<Rightarrow> Inl (ZodError invalid_type))
      | _ \<Rightarrow> Inl (ZodError invalid_type))"

text \<open>
  A response is its status and its JSON body: the mood, the moodboard (the stored record
  with \<open>spotifyPlaylistId || undefined\<close>), or \<open>{ message }\<close> with the message of the
  error caught. Every value the handlers catch is an \<open>Error\<close>, so the message sent is
  the error's own.
\<close>

datatype response_body = MoodJson string | MoodboardJson Moodboard | MessageJson error

datatype response = Response (status_code: nat) (payload: response_body)

definition post_analyze_mood :: "env \<Rightarrow> json \<Rightarrow> response" where
  "post_analyze_mood e req_body =
     (case parse_analyzeMoodFromImageSchema req_body of
        Inl err \<Rightarrow> Response 500 (MessageJson err)
      | Inr img \<Rightarrow>
          (case analyzeMoodFromImage e img of
             Inl err \<Rightarrow> Response 500 (MessageJson err)
           | Inr detectedMood \<Rightarrow> Response 200 (MoodJson detectedMood)))"

text \<open>
  The generate handler. \<open>nanoid\<close> is the share id that \<open>nanoid(10)\<close> draws and
  \<open>now\<close> the clock reading, both inputs. \<open>Promise.all\<close> rejects with the rejection
  of the image fetch when there is one, else with that of the quote generator.
\<close>

definition post_moodboards ::
  "env \<Rightarrow> string \<Rightarrow> nat \<Rightarrow> json \<Rightarrow> MemStorage \<Rightarrow> response \<times> MemStorage" where
  "post_moodboards e nanoid now req_body storage =
     (case parse_generateMoodboardSchema req_body of
        Inl err \<Rightarrow> (Response 500 (MessageJson err), storage)
      | Inr m \<Rightarrow>
          (case fetchUnsplashImages e m of
             Inl err \<Rightarrow> (Response 500 (MessageJson err), storage)
           | Inr imgs \<Rightarrow>
               (case generateAIQuote e m of
                  Inl err \<Rightarrow> (Response 500 (MessageJson err), storage)
                | Inr q \<Rightarrow>
                    (let (moodboard, storage') =
                           createMoodboard storage now
                             \<lparr>mood = m, quote = q, images = imgs,
                              colors = getColorsForMood m,
                              spotifyPlaylistId = Some (getPlaylistForMood m),
                              shareId = nanoid\<rparr>
                     in (Response 200
                           (MoodboardJson
                              (moodboard\<lparr>spotifyPlaylistId :=
                                           or_null (spotifyPlaylistId moodboard)\<rparr>)),
                         storage')))))"

definition get_moodboard_by_shareId :: "MemStorage \<Rightarrow> string \<Rightarrow> response" where
  "get_moodboard_by_shareId storage sid =
     (case getMoodboardByShareId storage sid of
        None \<Rightarrow> Response 404 (MessageJson (Error ''Moodboard not found''))
      | Some moodboard \<Rightarrow>
          Response 200
            (MoodboardJson
               (moodboard\<lparr>spotifyPlaylistId := or_null (spotifyPlaylistId moodboard)\<rparr>)))"

text \<open>An environment whose services answer the same to every request.\<close>

definition constant_env ::
  "string \<Rightarrow> string \<Rightarrow> fetch_outcome \<Rightarrow> chat_outcome \<Rightarrow> chat_outcome \<Rightarrow> env" where
  "constant_env ukey okey photos qt vision =
     \<lparr>unsplash_key = ukey, openai_key = okey, fetch_photos = (\<lambda>m. photos),
      quote_completion = (\<lambda>m. qt), vision_completion = (\<lambda>i. vision)\<rparr>"

text \<open>Two generate requests as the handler passes them to the store, with their clock readings.\<close>

definition two_requests :: "(nat \<times> InsertMoodboard) list" where
  "two_requests =
     [(10, \<lparr>mood = ''happy'', quote = ''q1'', images = [], colors = getColorsForMood ''happy'',
            spotifyPlaylistId = Some (getPlaylistForMood ''happy''), shareId = ''aaaaaaaaaa''\<rparr>),
      (20, \<lparr>mood = ''angry'', quote = ''q2'', images = [], colors = getColorsForMood ''angry'',
            spotifyPlaylistId = None, shareId = ''bbbbbbbbbb''\<rparr>)]"

section \<open>The store: create, then look up\<close>

lemma createMoodboard_fst:
  "id_mb (fst (createMoodboard st now ins)) = currentId st"
  "shareId (fst (createMoodboard st now ins)) = shareId ins"
  by (simp_all add: createMoodboard_def Let_def)

lemma createMoodboard_snd:
  "currentId (snd (createMoodboard st now ins)) = Suc (currentId st)"
  "moodboards (snd (createMoodboard st now ins))
     = (moodboards st)(currentId st \<mapsto> fst (createMoodboard st now ins))"
  "shareIdMap (snd (createMoodboard st now ins))
     = (shareIdMap st)(shareId ins \<mapsto> currentId st)"
  by (simp_all add: createMoodboard_def Let_def)

lemma create_all_Cons:
  "create_all st ((now, ins) # rest) =
     (fst (createMoodboard st now ins) # fst (create_all (snd (createMoodboard st now ins)) rest),
      snd (create_all (snd (createMoodboard st now ins)) rest))"
  by (simp add: split_beta Let_def)

lemma create_all_currentId:
  "currentId (snd (create_all st reqs)) = currentId st + length reqs"
proof (induction reqs arbitrary: st)
  case Nil
  show ?case by simp
next
  case (Cons r reqs)
  obtain now ins where r: "r = (now, ins)" by (cases r)
  show ?case
    unfolding r create_all_Cons by (simp add: Cons.IH createMoodboard_snd)
qed

lemma upt_from_Suc: "[a ..< a + Suc n] = a # [Suc a ..< Suc a + n]"
proof -
  have "a < a + Suc n" by simp
  then have "[a ..< a + Suc n] = a # [Suc a ..< a + Suc n]" by (rule upt_conv_Cons)
  then show ?thesis by (simp only: add_Suc_right add_Suc)
qed

lemma create_all_ids:
  "map id_mb (fst (create_all st reqs)) = [currentId st ..< currentId st + length reqs]"
proof (induction reqs arbitrary: st)
  case Nil
  show ?case by simp
next
  case (Cons r reqs)
  obtain now ins where r: "r = (now, ins)" by (cases r)
  have "[currentId st ..< currentId st + length (r # reqs)]
          = currentId st # [Suc (currentId st) ..< Suc (currentId st) + length reqs]"
    using upt_from_Suc [of "currentId st" "length reqs"] by simp
  then show ?case
    unfolding r create_all_Cons
    by (simp only: fst_conv list.map Cons.IH createMoodboard_snd createMoodboard_fst)
qed

lemma create_all_shareIds:
  "map shareId (fst (create_all st reqs)) = map (\<lambda>(now, ins). shareId ins) reqs"
proof (induction reqs arbitrary: st)
  case Nil
  show ?case by simp
next
  case (Cons r reqs)
  obtain now ins where r: "r = (now, ins)" by (cases r)
  show ?case
    unfolding r create_all_Cons by (simp add: Cons.IH createMoodboard_fst)
qed

lemma create_all_shareIdMap_other:
  "s \<notin> set (map (\<lambda>(now, ins). shareId ins) reqs)
     \<Longrightarrow> shareIdMap (snd (create_all st reqs)) s = shareIdMap st s"
proof (induction reqs arbitrary: st)
  case Nil
  show ?case by simp
next
  case (Cons r reqs)
  obtain now ins where r: "r = (now, ins)" by (cases r)
  from Cons.prems have "s \<noteq> shareId ins" and "s \<notin> set (map (\<lambda>(now, ins). shareId ins) reqs)"
    by (auto simp: r)
  then show ?case
    unfolding r create_all_Cons by (simp add: Cons.IH createMoodboard_snd)
qed

lemma create_all_moodboards_below:
  "i < currentId st \<Longrightarrow> moodboards (snd (create_all st reqs)) i = moodboards st i"
proof (induction reqs arbitrary: st)
  case Nil
  show ?case by simp
next
  case (Cons r reqs)
  obtain now ins where r: "r = (now, ins)" by (cases r)
  from Cons.prems show ?case
    unfolding r create_all_Cons by (simp add: Cons.IH createMoodboard_snd)
qed

lemma create_all_indexed:
  "distinct (map (\<lambda>(now, ins). shareId ins) reqs) \<Longrightarrow> m \<in> set (fst (create_all st reqs))
     \<Longrightarrow> shareIdMap (snd (create_all st reqs)) (shareId m) = Some (id_mb m)
         \<and> moodboards (snd (create_all st reqs)) (id_mb m) = Some m"
proof (induction reqs arbitrary: st)
  case Nil
  then show ?case by simp
next
  case (Cons r reqs)
  obtain now ins where r: "r = (now, ins)" by (cases r)
  let ?m0 = "fst (createMoodboard st now ins)"
  let ?st1 = "snd (createMoodboard st now ins)"
  from Cons.prems(1) have fresh: "shareId ins \<notin> set (map (\<lambda>(now, ins). shareId ins) reqs)"
    and dist: "distinct (map (\<lambda>(now, ins). shareId ins) reqs)"
    by (auto simp: r)
  from Cons.prems(2) consider "m = ?m0" | "m \<in> set (fst (create_all ?st1 reqs))"
    unfolding r create_all_Cons by auto
  then show ?case
  proof cases
    case 1
    have "shareIdMap (snd (create_all ?st1 reqs)) (shareId ins) = shareIdMap ?st1 (shareId ins)"
      using fresh by (rule create_all_shareIdMap_other)
    moreover have "moodboards (snd (create_all ?st1 reqs)) (currentId st) = moodboards ?st1 (currentId st)"
      by (rule create_all_moodboards_below) (simp add: createMoodboard_snd)
    ultimately show ?thesis
      unfolding r create_all_Cons using 1 by (simp add: createMoodboard_snd createMoodboard_fst)
  next
    case 2
    from Cons.IH [OF dist 2] show ?thesis
      unfolding r create_all_Cons by simp
  qed
qed

lemma create_all_ids_positive:
  "0 < currentId st \<Longrightarrow> m \<in> set (fst (create_all st reqs)) \<Longrightarrow> 0 < id_mb m"
proof -
  assume pos: "0 < currentId st" and m: "m \<in> set (fst (create_all st reqs))"
  from m have "id_mb m \<in> set (map id_mb (fst (create_all st reqs)))" by simp
  then show ?thesis unfolding create_all_ids using pos by simp
qed

lemma create_then_get:
  "0 < currentId st \<Longrightarrow>
   getMoodboardByShareId (snd (createMoodboard st now ins)) (shareId ins)
     = Some (fst (createMoodboard st now ins))"
  by (simp add: getMoodboardByShareId_def createMoodboard_snd)

text \<open>
  C7. On a fresh store, after any sequence of creates, a create followed by
  \<open>getMoodboardByShareId\<close> on the share id of the record returned gives that record.
  When the share ids of a sequence of creates are pairwise distinct, every record created
  is found under its share id in the final store, the ids are 1, 2, 3, ... in creation
  order (so pairwise distinct and strictly increasing), and a share id never inserted
  gives absent.
\<close>

theorem store_create_then_get:
  assumes "distinct (map (\<lambda>(now, ins). shareId ins) reqs)"
    and "create_all new_MemStorage reqs = (ms, st)"
  shows "(\<forall>pre now ins.
            getMoodboardByShareId
              (snd (createMoodboard (snd (create_all new_MemStorage pre)) now ins)) (shareId ins)
            = Some (fst (createMoodboard (snd (create_all new_MemStorage pre)) now ins)))
       \<and> (\<forall>m \<in> set ms. getMoodboardByShareId st (shareId m) = Some m)
       \<and> map shareId ms = map (\<lambda>(now, ins). shareId ins) reqs
       \<and> map id_mb ms = [1 ..< Suc (length reqs)]
       \<and> distinct (map id_mb ms) \<and> sorted_wrt (<) (map id_mb ms)
       \<and> (\<forall>s. s \<notin> set (map (\<lambda>(now, ins). shareId ins) reqs)
              \<longrightarrow> getMoodboardByShareId st s = None)"
proof -
  have ms: "ms = fst (create_all new_MemStorage reqs)"
    and st: "st = snd (create_all new_MemStorage reqs)"
    using assms(2) by simp_all
  have cur: "currentId new_MemStorage = 1" by (simp add: new_MemStorage_def)
  have ids: "map id_mb ms = [1 ..< Suc (length reqs)]"
    unfolding ms create_all_ids cur by simp
  have now_get: "getMoodboardByShareId
                   (snd (createMoodboard (snd (create_all new_MemStorage pre)) now ins))
                   (shareId ins)
                 = Some (fst (createMoodboard (snd (create_all new_MemStorage pre)) now ins))"
    for pre now ins
    by (rule create_then_get) (simp add: create_all_currentId cur)
  have get: "getMoodboardByShareId st (shareId m) = Some m" if "m \<in> set ms" for m
  proof -
    from that have mem: "m \<in> set (fst (create_all new_MemStorage reqs))" by (simp add: ms)
    have "0 < id_mb m" using create_all_ids_positive [OF _ mem] by (simp add: cur)
    with create_all_indexed [OF assms(1) mem] show ?thesis
      by (simp add: getMoodboardByShareId_def st)
  qed
  have none: "getMoodboardByShareId st s = None"
    if "s \<notin> set (map (\<lambda>(now, ins). shareId ins) reqs)" for s
    using create_all_shareIdMap_other [OF that, of new_MemStorage]
    by (simp add: getMoodboardByShareId_def st new_MemStorage_def)
  have "sorted_wrt (<) (map id_mb ms)" unfolding ids by (rule sorted_wrt_upt)
  moreover have "distinct (map id_mb ms)" unfolding ids by (rule distinct_upt)
  moreover have "map shareId ms = map (\<lambda>(now, ins). shareId ins) reqs"
    unfolding ms by (rule create_all_shareIds)
  ultimately show ?thesis using now_get get none ids by blast
qed

theorem store_create_then_get_witness:
  "distinct (map (\<lambda>(now, ins). shareId ins) two_requests)
   \<and> list_all
         (\<lambda>m. getMoodboardByShareId (snd (create_all new_MemStorage two_requests)) (shareId m)
                = Some m)
         (fst (create_all new_MemStorage two_requests))
   \<and> map id_mb (fst (create_all new_MemStorage two_requests)) = [1, 2]
   \<and> getMoodboardByShareId (snd (create_all new_MemStorage two_requests)) ''nonexistent'' = None"
proof -
  have d: "distinct (map (\<lambda>(now, ins). shareId ins) two_requests)"
    by (simp add: two_requests_def)
  have c: "create_all new_MemStorage two_requests
             = (fst (create_all new_MemStorage two_requests),
                snd (create_all new_MemStorage two_requests))"
    by simp
  have n: "''nonexistent'' \<notin> set (map (\<lambda>(now, ins). shareId ins) two_requests)"
    by (simp add: two_requests_def)
  have l: "[1 ..< Suc (length two_requests)] = [1, 2]"
    by (simp add: two_requests_def upt_rec)
  from store_create_then_get [OF d c] d n l show ?thesis by (simp add: list_all_iff)
qed

section \<open>The mappers against the specification\<close>

text \<open>
  A read of a key that is no member of \<open>Object.prototype\<close> sees the table only.
\<close>

lemma get_property_own:
  "key \<notin> set object_prototype_members \<Longrightarrow> get_property table key = map_option Own (map_of table key)"
  by (simp add: get_property_def split: option.splits)

lemma moodPlaylistMap_nonempty: "map_of moodPlaylistMap key = Some v \<Longrightarrow> v \<noteq> []"
  by (auto simp: moodPlaylistMap_def split: if_splits)

lemma moodColorMap_nonempty: "map_of moodColorMap key = Some v \<Longrightarrow> v \<noteq> []"
  by (auto simp: moodColorMap_def split: if_splits)

lemma find_moodColorMap_nonempty: "find P moodColorMap = Some (k, v) \<Longrightarrow> v \<noteq> []"
  by (auto simp: moodColorMap_def split: if_splits)

text \<open>
  A lower-cased string has no capital letter, so of the members of \<open>Object.prototype\<close>
  a lower-cased mood can only name \<open>constructor\<close> and \<open>__proto__\<close>.
\<close>

lemma lower_char_not_capital:
  "\<not> (65 \<le> (of_char (lower_char c) :: nat) \<and> (of_char (lower_char c) :: nat) \<le> 90)"
  by (auto simp: lower_char_def Let_def)

lemma toLowerCase_no_capital:
  "list_all (\<lambda>c. \<not> (65 \<le> (of_char c :: nat) \<and> (of_char c :: nat) \<le> 90)) (toLowerCase m)"
  using lower_char_not_capital by (auto simp: toLowerCase_def list_all_iff)

lemma lowered_member_cases:
  assumes "toLowerCase m \<in> set object_prototype_members"
  shows "toLowerCase m = ''constructor'' \<or> toLowerCase m = ''__proto__''"
  using assms toLowerCase_no_capital [of m]
  by (auto simp: object_prototype_members_def)

lemma get_property_inherited:
  "get_property moodColorMap ''constructor'' = Some (Inherited ''constructor'')"
  "get_property moodColorMap ''__proto__'' = Some (Inherited ''__proto__'')"
  "get_property moodPlaylistMap ''constructor'' = Some (Inherited ''constructor'')"
  "get_property moodPlaylistMap ''__proto__'' = Some (Inherited ''__proto__'')"
  by code_simp+

text \<open>
  On every mood whose lower-cased form is neither of the two names, the Color Mapper
  computes what the specification says, and the result is never empty; on the two names it
  returns the inherited member.
\<close>

lemma getColorsForMood_refines_spec:
  assumes "toLowerCase m \<notin> set object_prototype_members"
  shows "getColorsForMood m = Own (spec_ColorMapper m)"
  using assms
  by (simp add: getColorsForMood_def spec_ColorMapper_def Let_def get_property_own
      partial_match_def includes_str_def default_colors_def split: option.splits prod.splits)

lemma spec_ColorMapper_nonempty: "spec_ColorMapper m \<noteq> []"
  by (auto simp: spec_ColorMapper_def Let_def dest: moodColorMap_nonempty find_moodColorMap_nonempty
      split: option.splits prod.splits)

lemma getColorsForMood_inherited:
  assumes "toLowerCase m \<in> set object_prototype_members"
  shows "getColorsForMood m = Inherited (toLowerCase m)"
  using lowered_member_cases [OF assms]
  by (auto simp: getColorsForMood_def Let_def get_property_inherited)

lemma matches_no_key_iff:
  "matches_no_key table m \<longleftrightarrow>
     map_of table (toLowerCase m) = None
     \<and> find (\<lambda>(key, v). sublist key (toLowerCase m) \<or> sublist (toLowerCase m) key) table = None"
  by (induction table)
     (auto simp: matches_no_key_def partial_match_def includes_str_def)

lemma spec_ColorMapper_default:
  "matches_no_key moodColorMap m \<Longrightarrow> spec_ColorMapper m = default_colors"
  by (simp add: matches_no_key_iff spec_ColorMapper_def default_colors_def)

text \<open>
  C5. The Color Mapper is specified as: exact key, else first partial match in table
  order, else the default palette. The code departs from it on the mood
  \<open>constructor\<close>: the mood matches no key of the table, the specified result is the
  default palette, and the code returns the member \<open>constructor\<close> that the table
  inherits from \<open>Object.prototype\<close>, which is no palette.
\<close>

theorem getColorsForMood_constructor:
  "matches_no_key moodColorMap ''constructor''
   \<and> spec_ColorMapper ''constructor'' = [''#42A5F5'', ''#66BB6A'', ''#FFA726'', ''#AB47BC'']
   \<and> getColorsForMood ''constructor'' = Inherited ''constructor''"
  by code_simp

text \<open>
  The Playlist Mapper: the same algorithm on its own table, whose keys are a strict
  subset of the keys of the color table, with the same departure on the two names.
\<close>

lemma playlist_keys_subset:
  "set (map fst moodPlaylistMap) \<subset> set (map fst moodColorMap)"
proof -
  have sub: "set (map fst moodPlaylistMap) \<subseteq> set (map fst moodColorMap)"
    by (simp add: moodPlaylistMap_def moodColorMap_def)
  have "''angry'' \<in> set (map fst moodColorMap)"
    by (simp add: moodColorMap_def)
  moreover have "''angry'' \<notin> set (map fst moodPlaylistMap)"
    by (simp add: moodPlaylistMap_def)
  ultimately show ?thesis using sub by blast
qed

lemma getPlaylistForMood_refines_spec:
  assumes "toLowerCase m \<notin> set object_prototype_members"
  shows "getPlaylistForMood m = Own (spec_PlaylistMapper m)"
proof (cases "map_of moodPlaylistMap (toLowerCase m)")
  case None
  then show ?thesis using assms
  by (simp add: getPlaylistForMood_def spec_PlaylistMapper_def Let_def get_property_own
      partial_match_def includes_str_def default_playlist_def split: option.splits prod.splits)
next
  case (Some v)
  then have "v \<noteq> []" by (rule moodPlaylistMap_nonempty)
  then show ?thesis using assms Some
  by (simp add: getPlaylistForMood_def spec_PlaylistMapper_def Let_def get_property_own)
qed

lemma getPlaylistForMood_inherited:
  assumes "toLowerCase m \<in> set object_prototype_members"
  shows "getPlaylistForMood m = Inherited (toLowerCase m)"
  using lowered_member_cases [OF assms]
  by (auto simp: getPlaylistForMood_def Let_def get_property_inherited)

lemma spec_PlaylistMapper_default:
  "matches_no_key moodPlaylistMap m \<Longrightarrow> spec_PlaylistMapper m = default_playlist"
  by (simp add: matches_no_key_iff spec_PlaylistMapper_def default_playlist_def)

text \<open>
  C6. The Playlist Mapper is specified to follow the algorithm of the Color Mapper and
  to give the default identifier to every mood that matches no key. The code departs
  from it on the mood \<open>constructor\<close>: it matches no key of the playlist table, the
  specified result is the default identifier, and the code returns the inherited member
  \<open>constructor\<close>, which is no playlist identifier.
\<close>

theorem getPlaylistForMood_constructor:
  "matches_no_key moodPlaylistMap ''constructor''
   \<and> spec_PlaylistMapper ''constructor'' = ''37i9dQZF1DX0XUsuxWHRQd''
   \<and> getPlaylistForMood ''constructor'' = Inherited ''constructor''"
  by code_simp

text \<open>
  C9. A mood that matches no key of the playlist table should carry the default
  identifier, the one the table gives to \<open>happy\<close>. The generate handler on the mood
  \<open>Constructor\<close>, which matches no key, answers a moodboard whose playlist (and
  palette) is the inherited member \<open>constructor\<close>, while the moodboard for
  \<open>happy\<close> carries the identifier: the two differ in their playlist field.
\<close>

theorem moodboard_playlist_constructor:
  "matches_no_key moodPlaylistMap ''Constructor''
   \<and> fst (post_moodboards
       (constant_env ''u'' ''sk'' FetchRejected ChatRejected ChatRejected)
       ''V1StGXR8_Z'' 0 (JObject [(''mood'', JString ''Constructor'')]) new_MemStorage)
     = Response 200 (MoodboardJson
         \<lparr>mood = ''Constructor'', quote = fallback_quote ''Constructor'',
          images = fallback_images, colors = Inherited ''constructor'',
          spotifyPlaylistId = Some (Inherited ''constructor''), shareId = ''V1StGXR8_Z'',
          id_mb = 1, createdAt = 0\<rparr>)
   \<and> fst (post_moodboards
       (constant_env ''u'' ''sk'' FetchRejected ChatRejected ChatRejected)
       ''V1StGXR8_Z'' 0 (JObject [(''mood'', JString ''happy'')]) new_MemStorage)
     = Response 200 (MoodboardJson
         \<lparr>mood = ''happy'', quote = fallback_quote ''happy'',
          images = fallback_images, colors = Own [''#FFA726'', ''#66BB6A'', ''#42A5F5'', ''#FFEB3B''],
          spotifyPlaylistId = Some (Own ''37i9dQZF1DX0XUsuxWHRQd''), shareId = ''V1StGXR8_Z'',
          id_mb = 1, createdAt = 0\<rparr>)"
  by code_simp

section \<open>Quote Generator\<close>

text \<open>
  C1, as the code has it. With the text-generation credential configured,
  \<open>generateAIQuote\<close> returns a quote and never raises: when the external call is
  rejected, its response is malformed, or its content is null or blank, the result is the
  fallback template with the mood. With the credential absent the check before the
  \<open>try\<close> raises \<open>OpenAI API key not configured\<close> to the caller.
\<close>

theorem generateAIQuote_fallback:
  "(openai_key e \<noteq> [] \<longrightarrow>
      (\<exists>q. generateAIQuote e m = Inr q)
      \<and> (quote_completion e m \<in> {ChatRejected, ChatMalformed, ChatContent None}
           \<longrightarrow> generateAIQuote e m = Inr (fallback_quote m))
      \<and> (\<forall>c. quote_completion e m = ChatContent (Some c) \<and> trim c = []
           \<longrightarrow> generateAIQuote e m = Inr (fallback_quote m)))
   \<and> (openai_key e = [] \<longrightarrow>
      generateAIQuote e m = Inl (Error ''OpenAI API key not configured''))"
  by (auto simp: generateAIQuote_def split: chat_outcome.splits option.splits)

theorem generateAIQuote_fallback_witness:
  "generateAIQuote (constant_env ''u'' ''sk'' FetchRejected ChatRejected ChatRejected) ''happy''
     = Inr (fallback_quote ''happy'')
   \<and> generateAIQuote (constant_env ''u'' [] FetchRejected ChatRejected ChatRejected) ''happy''
     = Inl (Error ''OpenAI API key not configured'')"
proof -
  let ?e = "constant_env ''u'' ''sk'' FetchRejected ChatRejected ChatRejected"
  let ?n = "constant_env ''u'' [] FetchRejected ChatRejected ChatRejected"
  have k: "openai_key ?e \<noteq> []" by (simp add: constant_env_def)
  have f: "quote_completion ?e ''happy'' \<in> {ChatRejected, ChatMalformed, ChatContent None}"
    by (simp add: constant_env_def)
  have n: "openai_key ?n = []" by (simp add: constant_env_def)
  from generateAIQuote_fallback [of ?e "''happy''"] k f
  have "generateAIQuote ?e ''happy'' = Inr (fallback_quote ''happy'')" by blast
  moreover from generateAIQuote_fallback [of ?n "''happy''"] n
  have "generateAIQuote ?n ''happy'' = Inl (Error ''OpenAI API key not configured'')" by blast
  ultimately show ?thesis by simp
qed

text \<open>
  C1 as stated fails: with no credential the call raises instead of returning the
  template.
\<close>

theorem generateAIQuote_no_key_counterexample:
  "generateAIQuote (constant_env ''u'' [] FetchRejected ChatRejected ChatRejected) ''happy''
     = Inl (Error ''OpenAI API key not configured'')
   \<and> generateAIQuote (constant_env ''u'' [] FetchRejected ChatRejected ChatRejected) ''happy''
     \<noteq> Inr (fallback_quote ''happy'')"
  by (simp add: generateAIQuote_def constant_env_def)

section \<open>Image Fetcher\<close>

text \<open>
  C2, as the code has it. With the image-search credential configured,
  \<open>fetchUnsplashImages\<close> never raises: a rejected fetch, a status that is not ok and a
  body that cannot be read all give the four placeholder URLs. With the credential absent
  the check before the \<open>try\<close> raises \<open>Unsplash API key not configured\<close> to the
  caller.
\<close>

theorem fetchUnsplashImages_fallback:
  "(unsplash_key e \<noteq> [] \<longrightarrow>
      (\<exists>urls. fetchUnsplashImages e m = Inr urls)
      \<and> (fetch_photos e m = FetchRejected \<longrightarrow> fetchUnsplashImages e m = Inr fallback_images)
      \<and> (\<forall>st b. fetch_photos e m = FetchResponse st b \<and> (\<not> response_ok st \<or> b = BodyMalformed)
           \<longrightarrow> fetchUnsplashImages e m = Inr fallback_images))
   \<and> (unsplash_key e = [] \<longrightarrow>
      fetchUnsplashImages e m = Inl (Error ''Unsplash API key not configured''))
   \<and> length fallback_images = 4"
  by (auto simp: fetchUnsplashImages_def fallback_images_def split: fetch_outcome.splits search_body.splits)

theorem fetchUnsplashImages_fallback_witness:
  "fetchUnsplashImages
     (constant_env ''u'' ''sk'' (FetchResponse 403 BodyMalformed) ChatRejected ChatRejected) ''happy''
     = Inr fallback_images
   \<and> fetchUnsplashImages (constant_env [] ''sk'' FetchRejected ChatRejected ChatRejected) ''happy''
     = Inl (Error ''Unsplash API key not configured'')"
proof -
  let ?e = "constant_env ''u'' ''sk'' (FetchResponse 403 BodyMalformed) ChatRejected ChatRejected"
  let ?n = "constant_env [] ''sk'' FetchRejected ChatRejected ChatRejected"
  have k: "unsplash_key ?e \<noteq> []" by (simp add: constant_env_def)
  have f: "fetch_photos ?e ''happy'' = FetchResponse 403 BodyMalformed \<and> \<not> response_ok 403"
    by (simp add: constant_env_def response_ok_def)
  have n: "unsplash_key ?n = []" by (simp add: constant_env_def)
  from fetchUnsplashImages_fallback [of ?e "''happy''"] k f
  have "fetchUnsplashImages ?e ''happy'' = Inr fallback_images" by blast
  moreover from fetchUnsplashImages_fallback [of ?n "''happy''"] n
  have "fetchUnsplashImages ?n ''happy'' = Inl (Error ''Unsplash API key not configured'')" by blast
  ultimately show ?thesis by simp
qed

text \<open>
  C2 as stated fails: with no credential the call raises instead of returning the
  placeholder URLs.
\<close>

theorem fetchUnsplashImages_no_key_counterexample:
  "fetchUnsplashImages (constant_env [] ''sk'' FetchRejected ChatRejected ChatRejected) ''happy''
     = Inl (Error ''Unsplash API key not configured'')
   \<and> fetchUnsplashImages (constant_env [] ''sk'' FetchRejected ChatRejected ChatRejected) ''happy''
     \<noteq> Inr fallback_images"
  by (simp add: fetchUnsplashImages_def constant_env_def)

section \<open>Mood-From-Image Classifier\<close>

text \<open>The first piece of a split is the text before the first separator.\<close>

lemma split_first: "\<exists>ws. split sep s = takeWhile (\<lambda>c. c \<noteq> sep) s # ws"
  by (induction s) auto

lemma strip_peaceful: "strip_non_a_to_z ''peaceful'' = ''peaceful''"
  by (simp add: strip_non_a_to_z_def is_a_to_z_def)

lemma analyzeMoodFromImage_content:
  assumes "openai_key e \<noteq> []" and "vision_completion e img = ChatContent (Some r)"
  shows "analyzeMoodFromImage e img =
           Inr (if trim r = [] then ''peaceful''
                else strip_non_a_to_z (takeWhile (\<lambda>c. c \<noteq> CHR '' '') (toLowerCase (trim r))))"
proof (cases "trim r = []")
  case True
  obtain ws where "split (CHR '' '') ''peaceful'' = takeWhile (\<lambda>c. c \<noteq> CHR '' '') ''peaceful'' # ws"
    using split_first by blast
  then have "split (CHR '' '') ''peaceful'' = ''peaceful'' # ws" by simp
  then show ?thesis using assms True
    by (simp add: analyzeMoodFromImage_def toLowerCase_def strip_peaceful del: split.simps)
next
  case False
  obtain ws where "split (CHR '' '') (toLowerCase (trim r))
                     = takeWhile (\<lambda>c. c \<noteq> CHR '' '') (toLowerCase (trim r)) # ws"
    using split_first by blast
  then show ?thesis using assms False
    by (simp add: analyzeMoodFromImage_def toLowerCase_def del: split.simps)
qed

text \<open>
  C3, as the code has it. With the vision credential configured,
  \<open>analyzeMoodFromImage\<close> never raises, a rejected call, a malformed response and a
  null content give \<open>peaceful\<close>, and the analyze-mood handler answers 200 with a mood
  whenever the request passes validation. With the credential absent the classifier
  raises \<open>OpenAI API key not configured\<close> and the handler answers 500 with that
  message on a valid request. A request that fails validation is answered 500 with the
  validation error.
\<close>

theorem analyzeMoodFromImage_fallback:
  "(openai_key e \<noteq> [] \<longrightarrow>
      (\<exists>w. analyzeMoodFromImage e img = Inr w)
      \<and> (vision_completion e img \<in> {ChatRejected, ChatMalformed, ChatContent None}
           \<longrightarrow> analyzeMoodFromImage e img = Inr ''peaceful'')
      \<and> (parse_analyzeMoodFromImageSchema req = Inr img
           \<longrightarrow> (\<exists>w. post_analyze_mood e req = Response 200 (MoodJson w))))
   \<and> (openai_key e = [] \<longrightarrow>
      analyzeMoodFromImage e img = Inl (Error ''OpenAI API key not configured'')
      \<and> (parse_analyzeMoodFromImageSchema req = Inr img
           \<longrightarrow> post_analyze_mood e req
                 = Response 500 (MessageJson (Error ''OpenAI API key not configured''))))
   \<and> (\<forall>err. parse_analyzeMoodFromImageSchema req = Inl err
         \<longrightarrow> post_analyze_mood e req = Response 500 (MessageJson err))"
proof -
  have some: "\<exists>w. analyzeMoodFromImage e img = Inr w" if "openai_key e \<noteq> []"
  proof (cases "vision_completion e img")
    case (ChatContent content)
    show ?thesis
    proof (cases content)
      case None
      then show ?thesis using that ChatContent split_first [of "CHR '' ''" "''peaceful''"]
        by (auto simp: analyzeMoodFromImage_def simp del: split.simps)
    next
      case (Some r)
      then show ?thesis using analyzeMoodFromImage_content [OF that] ChatContent by simp
    qed
  qed (simp_all add: analyzeMoodFromImage_def that)
  have fb: "analyzeMoodFromImage e img = Inr ''peaceful''"
    if "openai_key e \<noteq> []"
      and "vision_completion e img \<in> {ChatRejected, ChatMalformed, ChatContent None}"
  proof -
    obtain ws where "split (CHR '' '') ''peaceful'' = takeWhile (\<lambda>c. c \<noteq> CHR '' '') ''peaceful'' # ws"
      using split_first by blast
    then have "split (CHR '' '') ''peaceful'' = ''peaceful'' # ws" by simp
    then show ?thesis using that
      by (auto simp: analyzeMoodFromImage_def strip_peaceful simp del: split.simps)
  qed
  have nokey: "analyzeMoodFromImage e img = Inl (Error ''OpenAI API key not configured'')"
    if "openai_key e = []"
    using that by (simp add: analyzeMoodFromImage_def)
  show ?thesis
    using some fb nokey by (auto simp: post_analyze_mood_def)
qed

theorem analyzeMoodFromImage_fallback_witness:
  "analyzeMoodFromImage (constant_env ''u'' ''sk'' FetchRejected ChatRejected ChatRejected) ''aGk=''
     = Inr ''peaceful''
   \<and> post_analyze_mood (constant_env ''u'' [] FetchRejected ChatRejected ChatRejected)
       (JObject [(''image'', JString ''aGk='')])
     = Response 500 (MessageJson (Error ''OpenAI API key not configured''))
   \<and> post_analyze_mood (constant_env ''u'' ''sk'' FetchRejected ChatRejected ChatRejected)
       (JObject [(''mood'', JString ''happy'')])
     = Response 500 (MessageJson (ZodError invalid_type))"
proof -
  let ?e = "constant_env ''u'' ''sk'' FetchRejected ChatRejected ChatRejected"
  let ?n = "constant_env ''u'' [] FetchRejected ChatRejected ChatRejected"
  let ?req = "JObject [(''image'', JString ''aGk='')]"
  let ?bad = "JObject [(''mood'', JString ''happy'')]"
  have k: "openai_key ?e \<noteq> []" by (simp add: constant_env_def)
  have f: "vision_completion ?e ''aGk='' \<in> {ChatRejected, ChatMalformed, ChatContent None}"
    by (simp add: constant_env_def)
  have n: "openai_key ?n = []" by (simp add: constant_env_def)
  have p: "parse_analyzeMoodFromImageSchema ?req = Inr ''aGk=''"
    by (simp add: parse_analyzeMoodFromImageSchema_def)
  have b: "parse_analyzeMoodFromImageSchema ?bad = Inl (ZodError invalid_type)"
    by (simp add: parse_analyzeMoodFromImageSchema_def)
  from analyzeMoodFromImage_fallback [of ?e "''aGk=''" ?req] k f
  have "analyzeMoodFromImage ?e ''aGk='' = Inr ''peaceful''" by blast
  moreover from analyzeMoodFromImage_fallback [of ?n "''aGk=''" ?req] n p
  have "post_analyze_mood ?n ?req
          = Response 500 (MessageJson (Error ''OpenAI API key not configured''))" by blast
  moreover from analyzeMoodFromImage_fallback [of ?e "''aGk=''" ?bad] b
  have "post_analyze_mood ?e ?bad = Response 500 (MessageJson (ZodError invalid_type))" by blast
  ultimately show ?thesis by simp
qed

text \<open>
  C3 as stated fails: with no credential the classifier raises, and the handler fails on
  a request that passed validation.
\<close>

theorem analyze_mood_no_key_counterexample:
  "parse_analyzeMoodFromImageSchema (JObject [(''image'', JString ''aGk='')]) = Inr ''aGk=''
   \<and> analyzeMoodFromImage (constant_env ''u'' [] FetchRejected ChatRejected ChatRejected) ''aGk=''
     = Inl (Error ''OpenAI API key not configured'')
   \<and> post_analyze_mood (constant_env ''u'' [] FetchRejected ChatRejected ChatRejected)
       (JObject [(''image'', JString ''aGk='')])
     = Response 500 (MessageJson (Error ''OpenAI API key not configured''))"
  by (simp add: parse_analyzeMoodFromImageSchema_def post_analyze_mood_def
      analyzeMoodFromImage_def constant_env_def)

text \<open>
  C8, as the code has it. For a response text of the vision service (credential
  configured), the classifier trims and lower-cases the text; when nothing is left it
  returns \<open>peaceful\<close>, otherwise the text before the first space character, with
  every character outside a to z deleted. The response \<open>Excited!\<close> gives
  \<open>excited\<close>.
\<close>

theorem analyzeMoodFromImage_first_token:
  assumes "openai_key e \<noteq> []" and "vision_completion e img = ChatContent (Some r)"
  shows "analyzeMoodFromImage e img =
           Inr (if trim r = [] then ''peaceful''
                else filter is_a_to_z
                       (takeWhile (\<lambda>c. c \<noteq> CHR '' '') (toLowerCase (trim r))))
         \<and> (r = ''Excited!'' \<longrightarrow> analyzeMoodFromImage e img = Inr ''excited'')"
proof -
  have main: "analyzeMoodFromImage e img =
           Inr (if trim r = [] then ''peaceful''
                else filter is_a_to_z
                       (takeWhile (\<lambda>c. c \<noteq> CHR '' '') (toLowerCase (trim r))))"
    using analyzeMoodFromImage_content [OF assms] by (simp add: strip_non_a_to_z_def)
  have ev: "(if trim ''Excited!'' = [] then ''peaceful''
         else filter is_a_to_z
                (takeWhile (\<lambda>c. c \<noteq> CHR '' '') (toLowerCase (trim ''Excited!''))))
        = ''excited''"
    by code_simp
  have "analyzeMoodFromImage e img = Inr ''excited''" if "r = ''Excited!''"
    using main unfolding that ev .
  with main show ?thesis by blast
qed

theorem analyzeMoodFromImage_first_token_witness:
  "analyzeMoodFromImage
     (constant_env ''u'' ''sk'' FetchRejected ChatRejected (ChatContent (Some ''Excited!'')))
     ''aGk=''
   = Inr ''excited''"
proof -
  let ?e = "constant_env ''u'' ''sk'' FetchRejected ChatRejected (ChatContent (Some ''Excited!''))"
  have k: "openai_key ?e \<noteq> []" by (simp add: constant_env_def)
  have v: "vision_completion ?e ''aGk='' = ChatContent (Some ''Excited!'')"
    by (simp add: constant_env_def)
  from analyzeMoodFromImage_first_token [OF k v] show ?thesis by blast
qed

text \<open>
  C8 as stated fails: the pieces are delimited by the space character only. On the
  response \<open>Happy\<close>, line feed, \<open>Sad\<close> the first white-space-delimited token gives
  \<open>happy\<close>, and the code returns \<open>happysad\<close>.
\<close>

theorem analyzeMoodFromImage_newline_counterexample:
  "analyzeMoodFromImage
     (constant_env ''u'' ''sk'' FetchRejected ChatRejected
        (ChatContent (Some (''Happy'' @ [CHR 0x0A] @ ''Sad''))))
     ''aGk=''
   = Inr ''happysad''
   \<and> spec_Classifier (''Happy'' @ [CHR 0x0A] @ ''Sad'') = ''happy''
   \<and> analyzeMoodFromImage
       (constant_env ''u'' ''sk'' FetchRejected ChatRejected
          (ChatContent (Some (''Happy'' @ [CHR 0x0A] @ ''Sad''))))
       ''aGk=''
     \<noteq> Inr (spec_Classifier (''Happy'' @ [CHR 0x0A] @ ''Sad''))"
  by code_simp

text \<open>
  C10, as the code has it. The non-empty response \<open>123!\<close> makes the classifier
  return the empty string, and the analyze-mood handler answers 200 with the empty mood.
  The empty mood, fed to the mappers, gives the palette of \<open>happy\<close>, the first entry
  of the table (every key contains the empty string), and the playlist of \<open>happy\<close>,
  which is also the default identifier.
\<close>

theorem empty_mood_from_image:
  "analyzeMoodFromImage
     (constant_env ''u'' ''sk'' FetchRejected ChatRejected (ChatContent (Some ''123!''))) ''aGk=''
   = Inr []
   \<and> post_analyze_mood
       (constant_env ''u'' ''sk'' FetchRejected ChatRejected (ChatContent (Some ''123!'')))
       (JObject [(''image'', JString ''aGk='')])
   = Response 200 (MoodJson [])
   \<and> getColorsForMood [] = Own [''#FFA726'', ''#66BB6A'', ''#42A5F5'', ''#FFEB3B'']
   \<and> map_of moodColorMap ''happy'' = Some [''#FFA726'', ''#66BB6A'', ''#42A5F5'', ''#FFEB3B'']
   \<and> getPlaylistForMood [] = Own ''37i9dQZF1DX0XUsuxWHRQd''
   \<and> map_of moodPlaylistMap ''happy'' = Some ''37i9dQZF1DX0XUsuxWHRQd''
   \<and> default_playlist = ''37i9dQZF1DX0XUsuxWHRQd''"
  by code_simp

text \<open>C10 as stated fails: the palette of the empty mood is not the default palette.\<close>

theorem empty_mood_palette_counterexample:
  "getColorsForMood [] \<noteq> Own default_colors
   \<and> default_colors = [''#42A5F5'', ''#66BB6A'', ''#FFA726'', ''#AB47BC'']"
  by code_simp

section \<open>Generate handler\<close>

text \<open>
  C4, as the code has it. A generate request whose mood field is absent, empty or longer
  than 100 characters is answered with status 500 and the validation error, the status of
  every other failure of the handler, and the store is left as it was.
\<close>

theorem post_moodboards_validation_error:
  assumes "map_of flds ''mood'' = None
           \<or> (\<exists>s. map_of flds ''mood'' = Some (JString s) \<and> (s = [] \<or> 100 < length s))"
  shows "\<exists>issue. post_moodboards e nanoid now (JObject flds) storage
                   = (Response 500 (MessageJson (ZodError issue)), storage)"
  using assms
  by (auto simp: post_moodboards_def parse_generateMoodboardSchema_def)

theorem post_moodboards_validation_error_witness:
  "post_moodboards (constant_env ''u'' ''sk'' FetchRejected ChatRejected ChatRejected)
     ''V1StGXR8_Z'' 0 (JObject [(''mood'', JString [])]) new_MemStorage
   = (Response 500 (MessageJson (ZodError too_small)), new_MemStorage)"
proof -
  have h: "map_of [(''mood'', JString [])] ''mood'' = None
           \<or> (\<exists>s. map_of [(''mood'', JString [])] ''mood'' = Some (JString s)
                  \<and> (s = [] \<or> 100 < length s))"
    by simp
  from post_moodboards_validation_error [OF h] show ?thesis
    by (auto simp: post_moodboards_def parse_generateMoodboardSchema_def)
qed

text \<open>
  C4 as stated fails: the empty mood is answered with status 500, which is no 4xx status
  and is the status of a processing error (here the missing image-search credential).
\<close>

theorem post_moodboards_status_counterexample:
  "status_code (fst (post_moodboards
       (constant_env ''u'' ''sk'' FetchRejected ChatRejected ChatRejected)
       ''V1StGXR8_Z'' 0 (JObject [(''mood'', JString [])]) new_MemStorage)) = 500
   \<and> \<not> (400 \<le> status_code (fst (post_moodboards
       (constant_env ''u'' ''sk'' FetchRejected ChatRejected ChatRejected)
       ''V1StGXR8_Z'' 0 (JObject [(''mood'', JString [])]) new_MemStorage))
        \<and> status_code (fst (post_moodboards
       (constant_env ''u'' ''sk'' FetchRejected ChatRejected ChatRejected)
       ''V1StGXR8_Z'' 0 (JObject [(''mood'', JString [])]) new_MemStorage)) \<le> 499)
   \<and> status_code (fst (post_moodboards
       (constant_env [] ''sk'' FetchRejected ChatRejected ChatRejected)
       ''V1StGXR8_Z'' 0 (JObject [(''mood'', JString ''happy'')]) new_MemStorage)) = 500"
  by (simp add: post_moodboards_def parse_generateMoodboardSchema_def
      fetchUnsplashImages_def constant_env_def)

end
